theory Spec2Isabelle
  imports Main "HOL-Library.Monad_Syntax" "HOL-Library.Word"
begin

section \<open>Data model of game.cpp\<close>

text \<open>
  The constants \<open>TILE_SIZE\<close>, \<open>SPEED\<close> and \<open>FRAME_TIME\<close> come from config.h, which
  is not among the sources; they are parameters of the model. The virtual clock of the
  walker and its two deadlines are \<open>uint64_t\<close>, the type of \<open>delta\<close>: 64-bit words,
  whose addition wraps around and whose comparison is unsigned; \<open>SPEED\<close> and
  \<open>FRAME_TIME\<close> enter only sums with the clock and are given as the 64-bit values
  they are converted to. An \<open>int\<close> variable of the C++ holds an integer between
  \<open>INT_MIN\<close> and \<open>INT_MAX\<close>. The arithmetic of the walker's step and the
  subtraction of the camera bounds are written with the two's complement wrap-around of
  a result that leaves this range; the other \<open>int\<close> computations (tile to pixel
  conversion, the centre of an object, the camera sums) are written without it, for
  coordinates that stay well inside the range.
\<close>

type_synonym uint64 = "64 word"

record config =
  TILE_SIZE :: int
  SPEED :: uint64
  FRAME_TIME :: uint64

definition INT_MAX :: int where
  "INT_MAX = 2147483647"

definition INT_MIN :: int where
  "INT_MIN = - 2147483648"

text \<open>The values that an \<open>int\<close> variable can hold.\<close>

definition int_range :: "int \<Rightarrow> bool" where
  "int_range v \<longleftrightarrow> INT_MIN \<le> v \<and> v \<le> INT_MAX"

text \<open>The value of a 32-bit \<open>int\<close> computation that left the range, in two's complement.\<close>

definition wrap32 :: "int \<Rightarrow> int" where
  "wrap32 v = (v + 2147483648) mod 4294967296 - 2147483648"

datatype DIR = UP | DOWN | LEFT | RIGHT

datatype texture = MissingTexture | Texture string

text \<open>class ObjectWalker: the back pointer \<open>parent\<close> is the object that holds the walker.\<close>

record ObjectWalker =
  dest_x :: int
  dest_y :: int
  movement_deadline :: uint64
  animation_deadline :: uint64
  tick :: uint64

text \<open>
  class GameObject and its subclass Player (which adds the field \<open>type\<close>). The texture
  vectors \<open>up\<close>, \<open>down\<close>, \<open>side\<close> are read by \<open>render\<close> only and are left out, as
  are the pointers to the renderer, the input handler and the map manager, which the
  functions below take as arguments.
\<close>

datatype obj_kind = Base | Player int

record GameObject =
  object_walker :: "ObjectWalker option"
  current_frame :: int
  loop_frame :: int
  end_frame :: int
  stop_frame :: int
  dir :: DIR
  camera_center :: bool
  size_x :: int
  size_y :: int
  screen_x :: int
  screen_y :: int
  map_x :: int
  map_y :: int
  kind :: obj_kind

section \<open>GameObject: animation frames\<close>

text \<open>
  \<^verbatim>\<open>this->dir = dir; if (++current_frame > end_frame) current_frame = loop_frame;\<close>
\<close>

definition advanceFrame :: "DIR \<Rightarrow> GameObject \<Rightarrow> GameObject" where
  "advanceFrame d g =
     (let g1 = g\<lparr>dir := d\<rparr>;
          g2 = g1\<lparr>current_frame := current_frame g1 + 1\<rparr>
      in if current_frame g2 > end_frame g2
         then g2\<lparr>current_frame := loop_frame g2\<rparr> else g2)"

text \<open>
  The assignment to \<open>dir\<close> is commented out in the source, so the argument is unused:
  \<^verbatim>\<open>
  if (current_frame != stop_frame and current_frame != 0) current_frame = stop_frame;
  else if (current_frame != 0) current_frame = 0;
  \<close>
\<close>

definition stopFrame :: "DIR \<Rightarrow> GameObject \<Rightarrow> GameObject" where
  "stopFrame d g =
     (if current_frame g \<noteq> stop_frame g \<and> current_frame g \<noteq> 0
      then g\<lparr>current_frame := stop_frame g\<rparr>
      else if current_frame g \<noteq> 0
      then g\<lparr>current_frame := 0\<rparr>
      else g)"

section \<open>MapManager: tile and collision storage\<close>

text \<open>
  \<open>tile\<close> and \<open>collision\<close> are vectors of columns: \<open>tile[x][y]\<close>. The map registry
  and the file parsing of \<open>loadMap\<close> are outside the model.
\<close>

record MapManager =
  tile :: "texture list list"
  collision :: "int list list"
  spawn_x :: int
  spawn_y :: int

datatype error = LengthError

text \<open>\<open>v[i]\<close> on a std::vector: defined only for \<open>i < v.size()\<close>.\<close>

definition vec_at :: "'a list \<Rightarrow> nat \<Rightarrow> 'a option" where
  "vec_at v i = (if i < length v then Some (v ! i) else None)"

text \<open>\<open>v.resize(n, c)\<close>: keeps the first \<open>n\<close> elements and pads with copies of \<open>c\<close>.\<close>

definition vector_resize :: "nat \<Rightarrow> 'a \<Rightarrow> 'a list \<Rightarrow> 'a list" where
  "vector_resize n c v = take n v @ replicate (n - length v) c"

text \<open>
  \<open>v.size() > x\<close> for an \<open>int x\<close>: the comparison converts \<open>x\<close> to \<open>size_t\<close>, so
  a negative \<open>x\<close> becomes larger than the size of any vector.
\<close>

definition size_gt :: "nat \<Rightarrow> int \<Rightarrow> bool" where
  "size_gt n x = (0 \<le> x \<and> x < int n)"

text \<open>
  \<^verbatim>\<open>
  if (pos_x < 0 or pos_y < 0 or pos_x >= collision.size() or
      pos_y >= collision[pos_x].size()) return 1;
  return collision[pos_x][pos_y];
  \<close>
  The disjunction is evaluated left to right; \<open>None\<close> stands for an element access
  outside a vector.
\<close>

definition getCollision :: "MapManager \<Rightarrow> int \<Rightarrow> int \<Rightarrow> int option" where
  "getCollision m pos_x pos_y =
     (if pos_x < 0 \<or> pos_y < 0 \<or> pos_x \<ge> int (length (collision m)) then Some 1
      else case vec_at (collision m) (nat pos_x) of
             None \<Rightarrow> None
           | Some col \<Rightarrow>
               if pos_y \<ge> int (length col) then Some 1 else vec_at col (nat pos_y))"

text \<open>
  The loop \<^verbatim>\<open>for (i = 0; i < size_x; ++i) { tile[i].resize(size_y, missing);
  collision[i].resize(size_y, 1); }\<close> of \<open>resizeMapStorage\<close>.
\<close>

definition resize_column :: "nat \<Rightarrow> nat \<Rightarrow> MapManager \<Rightarrow> MapManager" where
  "resize_column sy i m =
     m\<lparr>tile := (tile m)[i := vector_resize sy MissingTexture (tile m ! i)],
       collision := (collision m)[i := vector_resize sy 1 (collision m ! i)]\<rparr>"

text \<open>
  \<open>resizeMapStorage(x, y, absolute)\<close>. A negative size converted to \<open>size_t\<close> exceeds
  \<open>max_size()\<close>, and \<open>vector::resize\<close> throws \<open>std::length_error\<close>: for the
  outer vectors when \<open>size_x < 0\<close>, for the first column when \<open>size_y < 0\<close> and the
  loop runs at all.
\<close>

definition resizeMapStorage :: "MapManager \<Rightarrow> int \<Rightarrow> int \<Rightarrow> bool \<Rightarrow> error + MapManager" where
  "resizeMapStorage m x0 y0 absolute =
     (let x = x0 + 1;
          y = y0 + 1;
          sx = (if absolute then x
                else if size_gt (length (tile m)) x then int (length (tile m)) else x);
          sy = (if absolute then y
                else if tile m \<noteq> []
                     then (if size_gt (length (hd (tile m))) y
                           then int (length (hd (tile m))) else y)
                     else y)
      in if sx < 0 then Inl LengthError
         else if 0 < sx \<and> sy < 0 then Inl LengthError
         else Inr (fold (resize_column (nat sy)) [0..<nat sx]
                     (m\<lparr>tile := vector_resize (nat sx) [] (tile m),
                        collision := vector_resize (nat sx) [] (collision m)\<rparr>)))"

text \<open>Extent of the grid, read as the source reads it: \<open>tile.size()\<close> and \<open>tile[0].size()\<close>.\<close>

definition width :: "MapManager \<Rightarrow> nat" where
  "width m = length (tile m)"

definition height :: "MapManager \<Rightarrow> nat" where
  "height m = (if tile m = [] then 0 else length (hd (tile m)))"

text \<open>
  The data-model invariant: both vectors have the same extent and every column has the
  same length.
\<close>

definition grid_ok :: "MapManager \<Rightarrow> bool" where
  "grid_ok m \<longleftrightarrow>
     length (collision m) = length (tile m) \<and>
     list_all (\<lambda>col. length col = height m) (tile m) \<and>
     list_all (\<lambda>col. length col = height m) (collision m)"

section \<open>ObjectWalker\<close>

text \<open>
  Modelled from the spec: the helper \<open>sgn\<close> is declared outside game.cpp; the spec
  describes it as the sign of its argument, one of -1, 0, +1.
\<close>

definition sgn_int :: "int \<Rightarrow> int" where
  "sgn_int v = (if v < 0 then - 1 else if v = 0 then 0 else 1)"

definition setDestination :: "int \<Rightarrow> int \<Rightarrow> ObjectWalker \<Rightarrow> ObjectWalker" where
  "setDestination x y w =
     w\<lparr>dest_x := x, dest_y := y, movement_deadline := 0, animation_deadline := 0\<rparr>"

definition setScreenPos_raw :: "int \<Rightarrow> int \<Rightarrow> GameObject \<Rightarrow> GameObject" where
  \<comment> \<open>\<open>GameObject::_setScreenPos\<close>\<close>
  "setScreenPos_raw x y g = g\<lparr>screen_x := x, screen_y := y\<rparr>"

text \<open>
  \<open>ObjectWalker::runTick\<close>, on the walker and the object it points back to. The guard
  is the source's \<^verbatim>\<open>movement_deadline < tick\<close>, an unsigned comparison after
  \<^verbatim>\<open>tick += delta\<close> has wrapped around. The \<open>int\<close> sums and differences of the
  step are wrapped to the range of \<open>int\<close>.
\<close>

definition ObjectWalker_runTick ::
  "config \<Rightarrow> uint64 \<Rightarrow> ObjectWalker \<Rightarrow> GameObject \<Rightarrow> ObjectWalker \<times> GameObject" where
  "ObjectWalker_runTick cfg delta w g =
     (let w1 = w\<lparr>tick := tick w + delta\<rparr>
      in if movement_deadline w1 < tick w1 then
           (let tmp_x0 = screen_x g;
                tmp_y0 = screen_y g;
                sgn_x0 = sgn_int (wrap32 (dest_x w1 - tmp_x0));
                sgn_y0 = sgn_int (wrap32 (dest_y w1 - tmp_y0));
                tmp_x1 = wrap32 (tmp_x0 + sgn_x0);
                tmp_y1 = wrap32 (tmp_y0 + sgn_y0);
                overshoot_x = (sgn_x0 \<noteq> sgn_int (wrap32 (dest_x w1 - tmp_x1)));
                tmp_x = (if overshoot_x then dest_x w1 else tmp_x1);
                sgn_x = (if overshoot_x then 0 else sgn_x0);
                overshoot_y = (sgn_y0 \<noteq> sgn_int (wrap32 (dest_y w1 - tmp_y1)));
                tmp_y = (if overshoot_y then dest_y w1 else tmp_y1);
                sgn_y = (if overshoot_y then 0 else sgn_y0);
                d = (if wrap32 \<bar>wrap32 (dest_x w1 - tmp_x)\<bar>
                          > wrap32 \<bar>wrap32 (dest_y w1 - tmp_y)\<bar>
                     then (if sgn_x \<ge> 0 then LEFT else RIGHT)
                     else (if sgn_y \<ge> 0 then DOWN else UP));
                g1 = setScreenPos_raw tmp_x tmp_y g;
                w2 = w1\<lparr>movement_deadline := tick w1 + SPEED cfg\<rparr>
            in if animation_deadline w2 < tick w2 then
                 (w2\<lparr>animation_deadline := tick w2 + FRAME_TIME cfg\<rparr>,
                  if sgn_x = 0 \<and> sgn_y = 0 then stopFrame d g1 else advanceFrame d g1)
               else (w2, g1))
         else (w1, g))"

section \<open>GameObject: positions, collision and tick\<close>

text \<open>C++ integer division truncates towards zero.\<close>

definition c_div :: "int \<Rightarrow> int \<Rightarrow> int" where
  "c_div a b = sgn a * sgn b * (\<bar>a\<bar> div \<bar>b\<bar>)"

definition getCenter :: "config \<Rightarrow> GameObject \<Rightarrow> int \<times> int" where
  "getCenter cfg g =
     (screen_x g + c_div (TILE_SIZE cfg * size_x g) 2,
      screen_y g + c_div (TILE_SIZE cfg * size_y g) 2)"

definition isCameraCenter :: "GameObject \<Rightarrow> bool" where
  "isCameraCenter g = camera_center g"

text \<open>
  \<open>setMapPos(x, y, anim)\<close>. The two-argument calls in \<open>Player::runTick\<close> use the
  default argument declared in game.h, which the spec gives as "animated"; they are
  written here with \<open>anim = True\<close>.
\<close>

definition setMapPos :: "config \<Rightarrow> int \<Rightarrow> int \<Rightarrow> bool \<Rightarrow> GameObject \<Rightarrow> GameObject" where
  "setMapPos cfg x y anim g =
     (let g1 = g\<lparr>map_x := x, map_y := y\<rparr>;
          g2 = (case object_walker g1 of
                  Some w \<Rightarrow>
                    g1\<lparr>object_walker :=
                         Some (setDestination (map_x g1 * TILE_SIZE cfg)
                                 (map_y g1 * TILE_SIZE cfg) w)\<rparr>
                | None \<Rightarrow> g1);
          anim1 = (case object_walker g1 of Some w \<Rightarrow> anim | None \<Rightarrow> False)
      in if \<not> anim1
         then g2\<lparr>screen_x := map_x g2 * TILE_SIZE cfg, screen_y := map_y g2 * TILE_SIZE cfg\<rparr>
         else g2)"

text \<open>
  \<open>checkCollision(offset_x, offset_y)\<close>: the maximum of \<open>getCollision\<close> over the
  footprint, starting from 0; the two nested \<open>for\<close> loops run over
  \<open>0 \<le> x < size_x\<close> and \<open>0 \<le> y < size_y\<close>.
\<close>

definition checkCollision :: "MapManager \<Rightarrow> GameObject \<Rightarrow> int \<Rightarrow> int \<Rightarrow> int option" where
  "checkCollision m g offset_x offset_y =
     (let tmp_x = map_x g + offset_x;
          tmp_y = map_y g + offset_y
      in fold (\<lambda>x. fold (\<lambda>y coll.
                 case coll of
                   None \<Rightarrow> None
                 | Some c \<Rightarrow> map_option (max c) (getCollision m (tmp_x + x) (tmp_y + y)))
               [0..size_y g - 1])
           [0..size_x g - 1] (Some 0))"

definition GameObject_runTick :: "config \<Rightarrow> uint64 \<Rightarrow> GameObject \<Rightarrow> GameObject" where
  "GameObject_runTick cfg delta g =
     (case object_walker g of
        None \<Rightarrow> g
      | Some w \<Rightarrow>
          (case ObjectWalker_runTick cfg delta w g of
             (w1, g1) \<Rightarrow> g1\<lparr>object_walker := Some w1\<rparr>))"

section \<open>Player\<close>

text \<open>The input handler, as far as the game reads it.\<close>

record InputHandler =
  isPlayer :: "DIR \<Rightarrow> bool"
  isPlayer2 :: "DIR \<Rightarrow> bool"

text \<open>
  \<open>Player::runTick\<close>, with the player's \<open>type\<close> as an argument. Each of the four
  \<open>if\<close> statements evaluates the input test first and calls \<open>checkCollision\<close> only
  when it holds.
\<close>

definition Player_runTick ::
  "config \<Rightarrow> InputHandler \<Rightarrow> MapManager \<Rightarrow> int \<Rightarrow> uint64 \<Rightarrow> GameObject \<Rightarrow> GameObject option" where
  "Player_runTick cfg inp m ptype delta g =
     (let g0 = GameObject_runTick cfg delta g
      in if current_frame g0 = 0 \<or> current_frame g0 = stop_frame g0 then
           do {
             g1 \<leftarrow> (if (isPlayer inp UP \<and> ptype = 0) \<or> (isPlayer2 inp UP \<and> ptype = 1)
                    then do { c \<leftarrow> checkCollision m g0 0 (- 1);
                              Some (if c < 1 then setMapPos cfg (map_x g0) (map_y g0 - 1) True g0
                                    else g0) }
                    else Some g0);
             g2 \<leftarrow> (if (isPlayer inp RIGHT \<and> ptype = 0) \<or> (isPlayer2 inp RIGHT \<and> ptype = 1)
                    then do { c \<leftarrow> checkCollision m g1 1 0;
                              Some (if c < 1 then setMapPos cfg (map_x g1 + 1) (map_y g1) True g1
                                    else g1) }
                    else Some g1);
             g3 \<leftarrow> (if (isPlayer inp DOWN \<and> ptype = 0) \<or> (isPlayer2 inp DOWN \<and> ptype = 1)
                    then do { c \<leftarrow> checkCollision m g2 0 1;
                              Some (if c < 1 then setMapPos cfg (map_x g2) (map_y g2 + 1) True g2
                                    else g2) }
                    else Some g2);
             (if (isPlayer inp LEFT \<and> ptype = 0) \<or> (isPlayer2 inp LEFT \<and> ptype = 1)
              then do { c \<leftarrow> checkCollision m g3 (- 1) 0;
                        Some (if c < 1 then setMapPos cfg (map_x g3 - 1) (map_y g3) True g3
                              else g3) }
              else Some g3)
           }
         else Some g0)"

text \<open>
  The call \<open>obj->runTick(delta)\<close>, dispatched on the class of the object
  (\<open>runTick\<close> is taken to be virtual; its declaration is in game.h).
\<close>

definition runTick_dispatch ::
  "config \<Rightarrow> InputHandler \<Rightarrow> MapManager \<Rightarrow> uint64 \<Rightarrow> GameObject \<Rightarrow> GameObject option" where
  "runTick_dispatch cfg inp m delta g =
     (case kind g of
        Base \<Rightarrow> Some (GameObject_runTick cfg delta g)
      | Player ptype \<Rightarrow> Player_runTick cfg inp m ptype delta g)"

section \<open>GameManager: the world tick\<close>

record GameManager =
  map_manager :: MapManager
  objects :: "GameObject list"
  paused :: bool

text \<open>The local variables of \<open>GameManager::runTick\<close> that the loop over the objects updates.\<close>

record CameraAcc =
  camera_count :: int
  camera_x :: int
  camera_y :: int
  min_x :: int
  min_y :: int
  max_x :: int
  max_y :: int

text \<open>What the tick hands to the renderer: \<open>setCenter\<close> and \<open>setSize\<close>.\<close>

record View =
  view_center :: "int \<times> int"
  view_multiplier :: int
  view_size :: "int \<times> int"

definition camera_init :: CameraAcc where
  "camera_init =
     \<lparr>camera_count = 0, camera_x = 0, camera_y = 0,
      min_x = INT_MAX, min_y = INT_MAX, max_x = INT_MIN, max_y = INT_MIN\<rparr>"

definition camera_add :: "config \<Rightarrow> GameObject \<Rightarrow> CameraAcc \<Rightarrow> CameraAcc" where
  "camera_add cfg g acc =
     (if isCameraCenter g then
        (case getCenter cfg g of
           (tmp_x, tmp_y) \<Rightarrow>
             \<lparr>camera_count = camera_count acc + 1,
              camera_x = camera_x acc + tmp_x,
              camera_y = camera_y acc + tmp_y,
              min_x = min (min_x acc) tmp_x,
              min_y = min (min_y acc) tmp_y,
              max_x = max (max_x acc) tmp_x,
              max_y = max (max_y acc) tmp_y\<rparr>)
      else acc)"

text \<open>
  The loop \<^verbatim>\<open>for (auto obj : objects)\<close>: tick the object unless paused, then add it
  to the camera sums. The calls to \<open>render\<close> only append to the renderer's queue and
  are left out.
\<close>

fun objects_loop ::
  "config \<Rightarrow> InputHandler \<Rightarrow> MapManager \<Rightarrow> bool \<Rightarrow> uint64 \<Rightarrow> GameObject list \<Rightarrow> CameraAcc
     \<Rightarrow> (GameObject list \<times> CameraAcc) option" where
  "objects_loop cfg inp m p delta [] acc = Some ([], acc)"
| "objects_loop cfg inp m p delta (obj # objs) acc =
     do {
       obj1 \<leftarrow> (if \<not> p then runTick_dispatch cfg inp m delta obj else Some obj);
       (objs1, acc1) \<leftarrow> objects_loop cfg inp m p delta objs (camera_add cfg obj1 acc);
       Some (obj1 # objs1, acc1)
     }"

text \<open>
  \<^verbatim>\<open>while (4 * multiplier * TILE_SIZE < size_x and 3 * multiplier * TILE_SIZE < size_y)
    ++multiplier;\<close>
  The loop need not end when \<open>TILE_SIZE \<le> 0\<close>; \<open>None\<close> is a loop that never ends.
\<close>

partial_function (option) zoom_loop :: "int \<Rightarrow> int \<Rightarrow> int \<Rightarrow> int \<Rightarrow> int option" where
  "zoom_loop ts sx sy multiplier =
     (if 4 * multiplier * ts < sx \<and> 3 * multiplier * ts < sy
      then zoom_loop ts sx sy (multiplier + 1)
      else Some multiplier)"

declare zoom_loop.simps [code]

text \<open>
  \<open>GameManager::runTick\<close>. The first statement, \<open>map_manager.render()\<close>, only appends
  to the renderer's queue and is left out. With no camera object the bounds keep their
  initial values and \<open>max_x - min_x\<close> leaves the \<open>int\<close> range; the model gives it the
  wrapped value.
\<close>

definition GameManager_runTick ::
  "config \<Rightarrow> InputHandler \<Rightarrow> uint64 \<Rightarrow> GameManager \<Rightarrow> (GameManager \<times> View) option" where
  "GameManager_runTick cfg inp delta gm =
     do {
       (objs1, acc) \<leftarrow>
         objects_loop cfg inp (map_manager gm) (paused gm) delta (objects gm) camera_init;
       let cx = (if camera_count acc > 0 then c_div (camera_x acc) (camera_count acc)
                 else camera_x acc);
       let cy = (if camera_count acc > 0 then c_div (camera_y acc) (camera_count acc)
                 else camera_y acc);
       let sx = \<bar>wrap32 (max_x acc - min_x acc)\<bar>;
       let sy = \<bar>wrap32 (max_y acc - min_y acc)\<bar>;
       multiplier \<leftarrow> zoom_loop (TILE_SIZE cfg) sx sy 5;
       Some (gm\<lparr>objects := objs1\<rparr>,
             \<lparr>view_center = (cx, cy),
              view_multiplier = multiplier,
              view_size = (4 * multiplier * TILE_SIZE cfg, 3 * multiplier * TILE_SIZE cfg)\<rparr>)
     }"

section \<open>Auxiliary functions for the walker's step\<close>

text \<open>
  One axis of the movement step of \<open>ObjectWalker::runTick\<close>: the new coordinate and the
  sign that is left after the overshoot check. The lemma \<open>runTick_unfold\<close> below shows
  that the tick computes exactly this on each axis.
\<close>

definition axis_step :: "int \<Rightarrow> int \<Rightarrow> int \<times> int" where
  "axis_step dest pos =
     (if sgn_int (wrap32 (dest - pos))
           \<noteq> sgn_int (wrap32 (dest - wrap32 (pos + sgn_int (wrap32 (dest - pos)))))
      then (dest, 0)
      else (wrap32 (pos + sgn_int (wrap32 (dest - pos))), sgn_int (wrap32 (dest - pos))))"

text \<open>The direction that the tick computes from the two axes.\<close>

definition walk_dir :: "int \<Rightarrow> int \<Rightarrow> int \<times> int \<Rightarrow> int \<times> int \<Rightarrow> DIR" where
  "walk_dir dx dy ax ay =
     (if wrap32 \<bar>wrap32 (dx - fst ax)\<bar> > wrap32 \<bar>wrap32 (dy - fst ay)\<bar>
      then (if snd ax \<ge> 0 then LEFT else RIGHT)
      else (if snd ay \<ge> 0 then DOWN else UP))"

text \<open>A sequence of ticks of one object, one \<open>delta\<close> per tick.\<close>

fun run_ticks :: "config \<Rightarrow> uint64 list \<Rightarrow> GameObject \<Rightarrow> GameObject" where
  "run_ticks cfg [] g = g"
| "run_ticks cfg (d # ds) g = run_ticks cfg ds (GameObject_runTick cfg d g)"


section \<open>Constructors and the states used in the examples\<close>

text \<open>
  \<open>GameObject::GameObject\<close>: no walker, all frames 0, facing down, footprint 1x1, placed
  at tile (-1, -1) without animation.
\<close>

definition GameObject_new :: "config \<Rightarrow> GameObject" where
  "GameObject_new cfg =
     setMapPos cfg (- 1) (- 1) False
       \<lparr>object_walker = None, current_frame = 0, loop_frame = 0, end_frame = 0,
        stop_frame = 0, dir = DOWN, camera_center = False, size_x = 1, size_y = 1,
        screen_x = 0, screen_y = 0, map_x = 0, map_y = 0, kind = Base\<rparr>"

text \<open>
  \<open>Player::Player\<close>: attaches a walker, becomes a camera centre, moves to the spawn tile
  without animation and sets the frames to 1, 4, 5. The walker's constructor initialises
  none of its fields; \<open>setMapPos\<close> then sets all of them except \<open>tick\<close>, whose
  initial value \<open>tick0\<close> is an argument here.
\<close>

definition Player_new :: "config \<Rightarrow> MapManager \<Rightarrow> int \<Rightarrow> uint64 \<Rightarrow> GameObject" where
  "Player_new cfg m ptype tick0 =
     (let g = (GameObject_new cfg)
                \<lparr>object_walker :=
                   Some \<lparr>dest_x = 0, dest_y = 0, movement_deadline = 0,
                         animation_deadline = 0, tick = tick0\<rparr>,
                 camera_center := True, kind := Player ptype\<rparr>;
          g1 = setMapPos cfg (spawn_x m) (spawn_y m) False g
      in g1\<lparr>loop_frame := 1, end_frame := 4, stop_frame := 5\<rparr>)"

definition example_cfg :: config where
  "example_cfg = \<lparr>TILE_SIZE = 16, SPEED = 10, FRAME_TIME = 100\<rparr>"

text \<open>A 3x3 map whose cells are all passable, with spawn tile (1, 1).\<close>

definition example_map :: MapManager where
  "example_map =
     \<lparr>tile = replicate 3 (replicate 3 (Texture ''tile.png'')),
      collision = replicate 3 (replicate 3 0), spawn_x = 1, spawn_y = 1\<rparr>"

definition example_player :: GameObject where
  "example_player = Player_new example_cfg example_map 0 0"

definition no_input :: InputHandler where
  "no_input = \<lparr>isPlayer = (\<lambda>d. False), isPlayer2 = (\<lambda>d. False)\<rparr>"

definition example_walker :: ObjectWalker where
  "example_walker =
     \<lparr>dest_x = 16, dest_y = 16, movement_deadline = 0, animation_deadline = 0, tick = 0\<rparr>"

text \<open>The example player in the middle of a walk to its tile, at pixel \<open>(x, y)\<close>.\<close>

definition walking_player :: "int \<Rightarrow> int \<Rightarrow> GameObject" where
  "walking_player x y =
     example_player\<lparr>screen_x := x, screen_y := y, current_frame := 2, dir := LEFT\<rparr>"

text \<open>A 2x2 map with authored cells.\<close>

definition authored_map :: MapManager where
  "authored_map =
     \<lparr>tile = [[Texture ''a.png'', Texture ''b.png''], [Texture ''c.png'', MissingTexture]],
      collision = [[0, 2], [1, 1]], spawn_x = 0, spawn_y = 0\<rparr>"

section \<open>The player's input rule, as the spec words it\<close>

definition input_active :: "InputHandler \<Rightarrow> int \<Rightarrow> DIR \<Rightarrow> bool" where
  "input_active inp ptype d \<longleftrightarrow> (isPlayer inp d \<and> ptype = 0) \<or> (isPlayer2 inp d \<and> ptype = 1)"

fun dir_offset :: "DIR \<Rightarrow> int \<times> int" where
  "dir_offset UP = (0, - 1)"
| "dir_offset RIGHT = (1, 0)"
| "dir_offset DOWN = (0, 1)"
| "dir_offset LEFT = (- 1, 0)"

text \<open>
  One direction: when its input is active and \<open>checkCollision\<close> for its one-tile offset
  is below 1, an animated move by that offset; otherwise nothing.
\<close>

definition spec_move ::
  "config \<Rightarrow> InputHandler \<Rightarrow> MapManager \<Rightarrow> int \<Rightarrow> DIR \<Rightarrow> GameObject \<Rightarrow> GameObject" where
  "spec_move cfg inp m ptype d g =
     (if input_active inp ptype d \<and>
         (case checkCollision m g (fst (dir_offset d)) (snd (dir_offset d)) of
            Some c \<Rightarrow> c < 1 | None \<Rightarrow> False)
      then setMapPos cfg (map_x g + fst (dir_offset d)) (map_y g + snd (dir_offset d)) True g
      else g)"

text \<open>
  The player's tick: the base tick, then, when the frame is 0 or the stop frame, the four
  directions one after the other in the order up, right, down, left.
\<close>

definition spec_player_tick ::
  "config \<Rightarrow> InputHandler \<Rightarrow> MapManager \<Rightarrow> int \<Rightarrow> uint64 \<Rightarrow> GameObject \<Rightarrow> GameObject" where
  "spec_player_tick cfg inp m ptype delta g =
     (let g0 = GameObject_runTick cfg delta g
      in if current_frame g0 = 0 \<or> current_frame g0 = stop_frame g0
         then fold (spec_move cfg inp m ptype) [UP, RIGHT, DOWN, LEFT] g0
         else g0)"

text \<open>Player 1 holds up and right.\<close>

definition up_right_input :: InputHandler where
  "up_right_input = \<lparr>isPlayer = (\<lambda>d. d = UP \<or> d = RIGHT), isPlayer2 = (\<lambda>d. False)\<rparr>"

section \<open>The camera sums of a list of objects\<close>



text \<open>
  Two players that both walk to tile (1, 1): the first stands on it, the second is
  \<open>(dx, dy)\<close> pixels away from it.
\<close>

definition two_players :: "int \<Rightarrow> int \<Rightarrow> GameManager" where
  "two_players dx dy =
     \<lparr>map_manager = example_map,
      objects = [example_player,
                 example_player\<lparr>screen_x := 16 + dx, screen_y := 16 + dy, kind := Player 1\<rparr>],
      paused = False\<rparr>"




text \<open>The example map with tile (2, 0) blocking, and with tile (2, 1) blocking.\<close>

definition corner_blocked_map :: MapManager where
  "corner_blocked_map = example_map\<lparr>collision := [[0, 0, 0], [0, 0, 0], [1, 0, 0]]\<rparr>"

definition side_blocked_map :: MapManager where
  "side_blocked_map = example_map\<lparr>collision := [[0, 0, 0], [0, 0, 0], [0, 1, 0]]\<rparr>"

section \<open>Stop frame\<close>

lemma example_player_eq:
  "example_player =
     \<lparr>object_walker =
        Some \<lparr>dest_x = 16, dest_y = 16, movement_deadline = 0, animation_deadline = 0,
              tick = 0\<rparr>,
      current_frame = 0, loop_frame = 1, end_frame = 4, stop_frame = 5, dir = DOWN,
      camera_center = True, size_x = 1, size_y = 1, screen_x = 16, screen_y = 16,
      map_x = 1, map_y = 1, kind = Player 0\<rparr>"
  by (simp add: example_player_def Player_new_def GameObject_new_def setMapPos_def
      setDestination_def example_cfg_def example_map_def)

lemma stopFrame_fields [simp]:
  "dir (stopFrame d g) = dir g"
  "screen_x (stopFrame d g) = screen_x g"
  "screen_y (stopFrame d g) = screen_y g"
  "stop_frame (stopFrame d g) = stop_frame g"
  "object_walker (stopFrame d g) = object_walker g"
  by (simp_all add: stopFrame_def)

lemma advanceFrame_fields [simp]:
  "screen_x (advanceFrame d g) = screen_x g"
  "screen_y (advanceFrame d g) = screen_y g"
  "object_walker (advanceFrame d g) = object_walker g"
  by (simp_all add: advanceFrame_def Let_def)

text \<open>
  C1, as the spec states it, fails: a player at frame 2 with stop frame 5 is at frame 0
  after the third call, not at frame 5.
\<close>

theorem stopFrame_third_call_counterexample:
  "current_frame (example_player\<lparr>current_frame := 2\<rparr>) \<noteq> 0 \<and>
   current_frame (example_player\<lparr>current_frame := 2\<rparr>)
     \<noteq> stop_frame (example_player\<lparr>current_frame := 2\<rparr>) \<and>
   current_frame (stopFrame DOWN (stopFrame DOWN (stopFrame DOWN
       (example_player\<lparr>current_frame := 2\<rparr>))))
     \<noteq> stop_frame (example_player\<lparr>current_frame := 2\<rparr>)"
  by (simp add: example_player_eq stopFrame_def)

text \<open>
  C1, amended: from a frame that is neither 0 nor the stop frame, the first call of
  \<open>stopFrame\<close> sets the frame to the stop frame, the second sets it to 0, and the third
  leaves it at 0.
\<close>

theorem stopFrame_sequence:
  assumes "current_frame g \<noteq> 0" and "current_frame g \<noteq> stop_frame g"
  shows "current_frame (stopFrame d1 g) = stop_frame g \<and>
         current_frame (stopFrame d2 (stopFrame d1 g)) = 0 \<and>
         current_frame (stopFrame d3 (stopFrame d2 (stopFrame d1 g))) = 0"
proof -
  have first: "current_frame (stopFrame d1 g) = stop_frame g"
    using assms by (simp add: stopFrame_def)
  have second: "current_frame (stopFrame d2 (stopFrame d1 g)) = 0"
    using first by (cases "stop_frame g = 0") (simp_all add: stopFrame_def)
  have third: "current_frame (stopFrame d3 (stopFrame d2 (stopFrame d1 g))) = 0"
    using second by (simp add: stopFrame_def)
  from first second third show ?thesis by simp
qed

theorem stopFrame_sequence_witness:
  "current_frame (example_player\<lparr>current_frame := 2\<rparr>) \<noteq> 0 \<and>
   current_frame (example_player\<lparr>current_frame := 2\<rparr>)
     \<noteq> stop_frame (example_player\<lparr>current_frame := 2\<rparr>) \<and>
   current_frame (stopFrame UP (example_player\<lparr>current_frame := 2\<rparr>)) = 5 \<and>
   current_frame (stopFrame UP (stopFrame UP (example_player\<lparr>current_frame := 2\<rparr>))) = 0 \<and>
   current_frame (stopFrame UP (stopFrame UP (stopFrame UP
       (example_player\<lparr>current_frame := 2\<rparr>)))) = 0"
proof -
  have h1: "current_frame (example_player\<lparr>current_frame := 2\<rparr>) \<noteq> 0"
    by simp
  have h2: "current_frame (example_player\<lparr>current_frame := 2\<rparr>)
              \<noteq> stop_frame (example_player\<lparr>current_frame := 2\<rparr>)"
    by (simp add: example_player_eq)
  show ?thesis
    using h1 h2 stopFrame_sequence [OF h1 h2, of UP UP UP]
    by (simp add: example_player_eq)
qed

section \<open>The walker's tick\<close>

lemma axis_step_fst_if:
  "fst (axis_step d x) =
     (if sgn_int (wrap32 (d - x))
           \<noteq> sgn_int (wrap32 (d - wrap32 (x + sgn_int (wrap32 (d - x)))))
      then d else wrap32 (x + sgn_int (wrap32 (d - x))))"
  by (simp add: axis_step_def)

lemma axis_step_snd_if:
  "snd (axis_step d x) =
     (if sgn_int (wrap32 (d - x))
           \<noteq> sgn_int (wrap32 (d - wrap32 (x + sgn_int (wrap32 (d - x)))))
      then 0 else sgn_int (wrap32 (d - x)))"
  by (simp add: axis_step_def)

lemma runTick_unfold:
  "ObjectWalker_runTick cfg delta w g =
     (if movement_deadline w < tick w + delta then
        (if animation_deadline w < tick w + delta then
           (w\<lparr>tick := tick w + delta, movement_deadline := tick w + delta + SPEED cfg,
              animation_deadline := tick w + delta + FRAME_TIME cfg\<rparr>,
            if snd (axis_step (dest_x w) (screen_x g)) = 0 \<and>
               snd (axis_step (dest_y w) (screen_y g)) = 0
            then stopFrame
                   (walk_dir (dest_x w) (dest_y w) (axis_step (dest_x w) (screen_x g))
                      (axis_step (dest_y w) (screen_y g)))
                   (g\<lparr>screen_x := fst (axis_step (dest_x w) (screen_x g)),
                      screen_y := fst (axis_step (dest_y w) (screen_y g))\<rparr>)
            else advanceFrame
                   (walk_dir (dest_x w) (dest_y w) (axis_step (dest_x w) (screen_x g))
                      (axis_step (dest_y w) (screen_y g)))
                   (g\<lparr>screen_x := fst (axis_step (dest_x w) (screen_x g)),
                      screen_y := fst (axis_step (dest_y w) (screen_y g))\<rparr>))
         else
           (w\<lparr>tick := tick w + delta, movement_deadline := tick w + delta + SPEED cfg\<rparr>,
            g\<lparr>screen_x := fst (axis_step (dest_x w) (screen_x g)),
              screen_y := fst (axis_step (dest_y w) (screen_y g))\<rparr>))
      else (w\<lparr>tick := tick w + delta\<rparr>, g))"
  by (simp add: ObjectWalker_runTick_def Let_def axis_step_fst_if axis_step_snd_if
      walk_dir_def setScreenPos_raw_def split del: if_split cong: if_cong)



lemma wrap32_id: "int_range v \<Longrightarrow> wrap32 v = v"
  by (simp add: int_range_def INT_MIN_def INT_MAX_def wrap32_def)

lemma axis_step_arrive: "fst (axis_step d x) = d \<Longrightarrow> snd (axis_step d x) = 0"
proof (cases "sgn_int (wrap32 (d - x))
    \<noteq> sgn_int (wrap32 (d - wrap32 (x + sgn_int (wrap32 (d - x)))))")
  case True
  then show ?thesis by (simp add: axis_step_def)
next
  case False
  assume "fst (axis_step d x) = d"
  with False have at: "wrap32 (x + sgn_int (wrap32 (d - x))) = d"
    by (simp add: axis_step_def)
  from False have "sgn_int (wrap32 (d - x)) = sgn_int (wrap32 (d - d))"
    unfolding at by simp
  then have "sgn_int (wrap32 (d - x)) = 0"
    by (simp add: wrap32_def sgn_int_def)
  with False show ?thesis by (simp add: axis_step_def)
qed

lemma axis_step_in_range:
  assumes "int_range d" and "int_range x" and "int_range (d - x)"
  shows "fst (axis_step d x) = x + sgn_int (d - x)"
    and "int_range (fst (axis_step d x))"
    and "int_range (d - fst (axis_step d x))"
proof -
  have s: "sgn_int (wrap32 (d - x)) = sgn_int (d - x)"
    using assms(3) by (simp add: wrap32_id)
  have r1: "int_range (x + sgn_int (d - x))"
    using assms by (auto simp: int_range_def INT_MIN_def INT_MAX_def sgn_int_def)
  have r2: "int_range (d - (x + sgn_int (d - x)))"
    using assms by (auto simp: int_range_def INT_MIN_def INT_MAX_def sgn_int_def)
  have same: "sgn_int (d - x) \<noteq> sgn_int (d - (x + sgn_int (d - x))) \<Longrightarrow>
      d = x + sgn_int (d - x)"
    by (auto simp: sgn_int_def split: if_splits)
  show "fst (axis_step d x) = x + sgn_int (d - x)"
    using same by (auto simp: axis_step_def s wrap32_id [OF r1] wrap32_id [OF r2])
  then show "int_range (fst (axis_step d x))" and "int_range (d - fst (axis_step d x))"
    using r1 r2 by simp_all
qed

lemma runTick_arrival_dir:
  assumes "screen_x (snd (ObjectWalker_runTick cfg delta w g)) = dest_x w"
    and "screen_y (snd (ObjectWalker_runTick cfg delta w g)) = dest_y w"
  shows "dir (snd (ObjectWalker_runTick cfg delta w g)) = dir g"
proof (cases "movement_deadline w < tick w + delta")
  case False
  then show ?thesis by (simp add: runTick_unfold)
next
  case True
  have pos: "screen_x (snd (ObjectWalker_runTick cfg delta w g))
      = fst (axis_step (dest_x w) (screen_x g))"
    "screen_y (snd (ObjectWalker_runTick cfg delta w g))
      = fst (axis_step (dest_y w) (screen_y g))"
    using True by (simp_all add: runTick_unfold)
  have "snd (axis_step (dest_x w) (screen_x g)) = 0"
    "snd (axis_step (dest_y w) (screen_y g)) = 0"
    using assms pos by (simp_all add: axis_step_arrive)
  then show ?thesis using True by (simp add: runTick_unfold)
qed

lemma runTick_step_pos:
  "movement_deadline w < tick w + delta \<Longrightarrow>
   screen_x (snd (ObjectWalker_runTick cfg delta w g)) = fst (axis_step (dest_x w) (screen_x g)) \<and>
   screen_y (snd (ObjectWalker_runTick cfg delta w g)) = fst (axis_step (dest_y w) (screen_y g))"
  by (simp add: runTick_unfold)

lemma runTick_walker:
  "dest_x (fst (ObjectWalker_runTick cfg delta w g)) = dest_x w"
  "dest_y (fst (ObjectWalker_runTick cfg delta w g)) = dest_y w"
  "tick (fst (ObjectWalker_runTick cfg delta w g)) = tick w + delta"
  by (simp_all add: runTick_unfold)

lemma runTick_step_deadline:
  "movement_deadline w < tick w + delta \<Longrightarrow>
   movement_deadline (fst (ObjectWalker_runTick cfg delta w g)) = tick w + delta + SPEED cfg"
  by (simp add: runTick_unfold)

lemma runTick_no_step:
  "tick w + delta \<le> movement_deadline w \<Longrightarrow>
   ObjectWalker_runTick cfg delta w g = (w\<lparr>tick := tick w + delta\<rparr>, g)"
  by (simp add: runTick_unfold)

text \<open>
  C10: \<open>stopFrame\<close> never changes the facing direction and ignores its direction
  argument, whatever the animation state; so on a tick after which the object stands on
  the walker's destination, the direction that the walker computed is not applied.
\<close>

theorem stopFrame_keeps_direction:
  "dir (stopFrame d g) = dir g \<and>
   stopFrame d g = stopFrame d' g \<and>
   (screen_x (snd (ObjectWalker_runTick cfg delta w g)) = dest_x w \<and>
    screen_y (snd (ObjectWalker_runTick cfg delta w g)) = dest_y w \<longrightarrow>
    dir (snd (ObjectWalker_runTick cfg delta w g)) = dir g)"
proof -
  have "stopFrame d g = stopFrame d' g"
    by (simp add: stopFrame_def)
  then show ?thesis
    using runTick_arrival_dir [of cfg delta w g] by simp
qed

theorem stopFrame_keeps_direction_witness:
  "screen_x (snd (ObjectWalker_runTick example_cfg 1 example_walker (walking_player 17 16)))
     = dest_x example_walker \<and>
   screen_y (snd (ObjectWalker_runTick example_cfg 1 example_walker (walking_player 17 16)))
     = dest_y example_walker \<and>
   dir (snd (ObjectWalker_runTick example_cfg 1 example_walker (walking_player 17 16))) = LEFT \<and>
   current_frame
     (snd (ObjectWalker_runTick example_cfg 1 example_walker (walking_player 17 16))) = 5 \<and>
   dir (stopFrame UP (walking_player 17 16)) = LEFT"
proof -
  have ev: "screen_x (snd (ObjectWalker_runTick example_cfg 1 example_walker (walking_player 17 16)))
     = dest_x example_walker"
   "screen_y (snd (ObjectWalker_runTick example_cfg 1 example_walker (walking_player 17 16)))
     = dest_y example_walker"
   "current_frame
     (snd (ObjectWalker_runTick example_cfg 1 example_walker (walking_player 17 16))) = 5"
   "dir (walking_player 17 16) = LEFT"
   "dir (stopFrame UP (walking_player 17 16)) = LEFT"
    by code_simp+
  from ev(1,2) stopFrame_keeps_direction
    [of UP "walking_player 17 16" UP example_cfg 1 example_walker]
  have "dir (snd (ObjectWalker_runTick example_cfg 1 example_walker (walking_player 17 16)))
      = dir (walking_player 17 16)"
    by blast
  with ev show ?thesis by simp
qed

text \<open>
  C4, as the spec states it, fails: the walker's clock reaches the movement deadline
  exactly (4 + 6 = 10), the object is not at its destination, and the tick moves nothing
  and schedules nothing.
\<close>

theorem runTick_deadline_counterexample:
  "tick (fst (ObjectWalker_runTick example_cfg 6
       (example_walker\<lparr>movement_deadline := 10, tick := 4\<rparr>) (walking_player 0 0)))
     = movement_deadline (example_walker\<lparr>movement_deadline := 10, tick := 4\<rparr>) \<and>
   screen_x (walking_player 0 0)
     \<noteq> dest_x (example_walker\<lparr>movement_deadline := 10, tick := 4\<rparr>) \<and>
   snd (ObjectWalker_runTick example_cfg 6
       (example_walker\<lparr>movement_deadline := 10, tick := 4\<rparr>) (walking_player 0 0))
     = walking_player 0 0 \<and>
   movement_deadline (fst (ObjectWalker_runTick example_cfg 6
       (example_walker\<lparr>movement_deadline := 10, tick := 4\<rparr>) (walking_player 0 0))) = 10"
  by (simp add: ObjectWalker_runTick_def Let_def example_walker_def walking_player_def)

text \<open>
  C4, amended: \<open>runTick(delta)\<close> advances the 64-bit clock by \<open>delta\<close>, wrapping around
  at \<open>2^64\<close>, and performs a movement step exactly when the movement deadline is strictly
  below the updated clock: the step schedules the next one \<open>SPEED\<close> after the clock and
  moves each axis by the sign of its distance to the destination (for coordinates whose
  difference is an \<open>int\<close>). When the updated clock is at or below the deadline, the tick
  changes nothing but the clock: destination, deadlines, visual position and animation
  state stay as they were.
\<close>

theorem runTick_steps_iff_deadline_passed:
  "tick (fst (ObjectWalker_runTick cfg delta w g)) = tick w + delta \<and>
   unat (tick (fst (ObjectWalker_runTick cfg delta w g)))
     = (unat (tick w) + unat delta) mod 2 ^ 64 \<and>
   (movement_deadline w < tick w + delta \<longrightarrow>
      movement_deadline (fst (ObjectWalker_runTick cfg delta w g))
        = tick w + delta + SPEED cfg \<and>
      (int_range (dest_x w) \<and> int_range (screen_x g) \<and> int_range (dest_x w - screen_x g)
       \<longrightarrow> screen_x (snd (ObjectWalker_runTick cfg delta w g))
             = screen_x g + sgn_int (dest_x w - screen_x g)) \<and>
      (int_range (dest_y w) \<and> int_range (screen_y g) \<and> int_range (dest_y w - screen_y g)
       \<longrightarrow> screen_y (snd (ObjectWalker_runTick cfg delta w g))
             = screen_y g + sgn_int (dest_y w - screen_y g))) \<and>
   (tick w + delta \<le> movement_deadline w \<longrightarrow>
      ObjectWalker_runTick cfg delta w g = (w\<lparr>tick := tick w + delta\<rparr>, g))"
proof -
  have clock: "tick (fst (ObjectWalker_runTick cfg delta w g)) = tick w + delta"
    by (rule runTick_walker(3))
  have wrapped: "unat (tick (fst (ObjectWalker_runTick cfg delta w g)))
      = (unat (tick w) + unat delta) mod 2 ^ 64"
    unfolding clock by (simp add: unat_word_ariths)
  have step: "movement_deadline w < tick w + delta \<longrightarrow>
      movement_deadline (fst (ObjectWalker_runTick cfg delta w g))
        = tick w + delta + SPEED cfg \<and>
      (int_range (dest_x w) \<and> int_range (screen_x g) \<and> int_range (dest_x w - screen_x g)
       \<longrightarrow> screen_x (snd (ObjectWalker_runTick cfg delta w g))
             = screen_x g + sgn_int (dest_x w - screen_x g)) \<and>
      (int_range (dest_y w) \<and> int_range (screen_y g) \<and> int_range (dest_y w - screen_y g)
       \<longrightarrow> screen_y (snd (ObjectWalker_runTick cfg delta w g))
             = screen_y g + sgn_int (dest_y w - screen_y g))"
    using runTick_step_pos [of w delta cfg g] runTick_step_deadline [of w delta cfg g]
      axis_step_in_range(1) [of "dest_x w" "screen_x g"]
      axis_step_in_range(1) [of "dest_y w" "screen_y g"]
    by simp
  have idle: "tick w + delta \<le> movement_deadline w \<longrightarrow>
      ObjectWalker_runTick cfg delta w g = (w\<lparr>tick := tick w + delta\<rparr>, g)"
    using runTick_no_step [of w delta cfg g] by simp
  from clock wrapped step idle show ?thesis by simp
qed

theorem runTick_steps_iff_deadline_passed_witness:
  "movement_deadline (example_walker\<lparr>movement_deadline := 10, tick := 4\<rparr>) < 4 + 7 \<and>
   movement_deadline (fst (ObjectWalker_runTick example_cfg 7
       (example_walker\<lparr>movement_deadline := 10, tick := 4\<rparr>) (walking_player 0 20))) = 21 \<and>
   screen_x (snd (ObjectWalker_runTick example_cfg 7
       (example_walker\<lparr>movement_deadline := 10, tick := 4\<rparr>) (walking_player 0 20))) = 1 \<and>
   screen_y (snd (ObjectWalker_runTick example_cfg 7
       (example_walker\<lparr>movement_deadline := 10, tick := 4\<rparr>) (walking_player 0 20))) = 19 \<and>
   4 + 6 \<le> movement_deadline (example_walker\<lparr>movement_deadline := 10, tick := 4\<rparr>) \<and>
   ObjectWalker_runTick example_cfg 6
       (example_walker\<lparr>movement_deadline := 10, tick := 4\<rparr>) (walking_player 0 20)
     = (example_walker\<lparr>movement_deadline := 10, tick := 10\<rparr>, walking_player 0 20) \<and>
   unat (tick (fst (ObjectWalker_runTick example_cfg 2
       (example_walker\<lparr>movement_deadline := 5, tick := - 1\<rparr>) (walking_player 0 20)))) = 1 \<and>
   ObjectWalker_runTick example_cfg 2
       (example_walker\<lparr>movement_deadline := 5, tick := - 1\<rparr>) (walking_player 0 20)
     = (example_walker\<lparr>movement_deadline := 5, tick := 1\<rparr>, walking_player 0 20)"
proof -
  have ev: "movement_deadline (example_walker\<lparr>movement_deadline := 10, tick := 4\<rparr>) < 4 + 7"
    "movement_deadline (fst (ObjectWalker_runTick example_cfg 7
       (example_walker\<lparr>movement_deadline := 10, tick := 4\<rparr>) (walking_player 0 20))) = 21"
    "screen_x (snd (ObjectWalker_runTick example_cfg 7
       (example_walker\<lparr>movement_deadline := 10, tick := 4\<rparr>) (walking_player 0 20))) = 1"
    "screen_y (snd (ObjectWalker_runTick example_cfg 7
       (example_walker\<lparr>movement_deadline := 10, tick := 4\<rparr>) (walking_player 0 20))) = 19"
    "4 + 6 \<le> movement_deadline (example_walker\<lparr>movement_deadline := 10, tick := 4\<rparr>)"
    "unat (tick (fst (ObjectWalker_runTick example_cfg 2
       (example_walker\<lparr>movement_deadline := 5, tick := - 1\<rparr>) (walking_player 0 20)))) = 1"
    by code_simp+
  have late: "tick (example_walker\<lparr>movement_deadline := 10, tick := 4\<rparr>) + 6
      \<le> movement_deadline (example_walker\<lparr>movement_deadline := 10, tick := 4\<rparr>)"
    by (simp add: example_walker_def)
  have wrapped: "tick (example_walker\<lparr>movement_deadline := 5, tick := - 1\<rparr>) + 2
      \<le> movement_deadline (example_walker\<lparr>movement_deadline := 5, tick := - 1\<rparr>)"
    by (simp add: example_walker_def)
  have r6: "ObjectWalker_runTick example_cfg 6
       (example_walker\<lparr>movement_deadline := 10, tick := 4\<rparr>) (walking_player 0 20)
     = (example_walker\<lparr>movement_deadline := 10, tick := 10\<rparr>, walking_player 0 20)"
    using late runTick_steps_iff_deadline_passed
      [of example_cfg 6 "example_walker\<lparr>movement_deadline := 10, tick := 4\<rparr>"
          "walking_player 0 20"]
    by (simp add: example_walker_def)
  have r2: "ObjectWalker_runTick example_cfg 2
       (example_walker\<lparr>movement_deadline := 5, tick := - 1\<rparr>) (walking_player 0 20)
     = (example_walker\<lparr>movement_deadline := 5, tick := 1\<rparr>, walking_player 0 20)"
    using wrapped runTick_steps_iff_deadline_passed
      [of example_cfg 2 "example_walker\<lparr>movement_deadline := 5, tick := - 1\<rparr>"
          "walking_player 0 20"]
    by (simp add: example_walker_def)
  from ev r6 r2 show ?thesis by simp
qed

section \<open>Arrival at the target\<close>






lemma GameObject_runTick_Some:
  "object_walker g = Some w \<Longrightarrow>
   GameObject_runTick cfg d g =
     (snd (ObjectWalker_runTick cfg d w g))
       \<lparr>object_walker := Some (fst (ObjectWalker_runTick cfg d w g))\<rparr>"
  by (simp add: GameObject_runTick_def split_def)





lemma run_ticks_stuck:
  "object_walker g = Some w \<Longrightarrow> movement_deadline w = - 1 \<Longrightarrow>
   screen_x (run_ticks cfg ds g) = screen_x g \<and> screen_y (run_ticks cfg ds g) = screen_y g"
proof (induction ds arbitrary: g w)
  case Nil
  show ?case by simp
next
  case (Cons d ds)
  have "tick w + d \<le> movement_deadline w"
    using Cons.prems(2) by simp
  then have R: "ObjectWalker_runTick cfg d w g = (w\<lparr>tick := tick w + d\<rparr>, g)"
    by (rule runTick_no_step)
  have g': "GameObject_runTick cfg d g = g\<lparr>object_walker := Some (w\<lparr>tick := tick w + d\<rparr>)\<rparr>"
    using GameObject_runTick_Some [OF Cons.prems(1), of cfg d] by (simp add: R)
  have "screen_x (run_ticks cfg ds (GameObject_runTick cfg d g))
        = screen_x (GameObject_runTick cfg d g) \<and>
      screen_y (run_ticks cfg ds (GameObject_runTick cfg d g))
        = screen_y (GameObject_runTick cfg d g)"
    by (rule Cons.IH [of _ "w\<lparr>tick := tick w + d\<rparr>"]) (simp_all add: g' Cons.prems(2))
  then show ?case by (simp add: g')
qed




section \<open>The map storage\<close>

lemma length_vector_resize [simp]: "length (vector_resize n c v) = n"
  by (simp add: vector_resize_def)

lemma nth_vector_resize:
  "i < n \<Longrightarrow> vector_resize n c v ! i = (if i < length v then v ! i else c)"
  by (simp add: vector_resize_def nth_append)

lemma resize_loop:
  "k \<le> length (tile m) \<Longrightarrow> k \<le> length (collision m) \<Longrightarrow>
   fold (resize_column sy) [0..<k] m =
     m\<lparr>tile := map (vector_resize sy MissingTexture) (take k (tile m)) @ drop k (tile m),
       collision := map (vector_resize sy 1) (take k (collision m)) @ drop k (collision m)\<rparr>"
proof (induction k)
  case 0
  show ?case by simp
next
  case (Suc k)
  then have k: "k < length (tile m)" "k < length (collision m)" by simp_all
  have upd: "\<And>f xs. k < length xs \<Longrightarrow>
      (map f (take k xs) @ drop k xs)[k := f ((map f (take k xs) @ drop k xs) ! k)]
        = map f (take (Suc k) xs) @ drop (Suc k) xs"
    by (simp add: list_update_append nth_append take_Suc_conv_app_nth
        flip: Cons_nth_drop_Suc)
  from Suc.IH k show ?case
    by (simp add: resize_column_def upd)
qed

lemma resizeMapStorage_absolute_eq:
  "- 1 \<le> x \<Longrightarrow> - 1 \<le> y \<Longrightarrow>
   resizeMapStorage m x y True =
     Inr (m\<lparr>tile := map (vector_resize (nat (y + 1)) MissingTexture)
                       (vector_resize (nat (x + 1)) [] (tile m)),
            collision := map (vector_resize (nat (y + 1)) 1)
                       (vector_resize (nat (x + 1)) [] (collision m))\<rparr>)"
  by (simp add: resizeMapStorage_def Let_def resize_loop)



lemma grid_ok_column:
  "grid_ok m \<Longrightarrow> i < width m \<Longrightarrow>
   length (tile m ! i) = height m \<and> length (collision m ! i) = height m"
  by (simp add: grid_ok_def width_def list_all_length)

text \<open>
  C8: \<open>getCollision\<close> returns a value for every grid and every coordinate pair (no
  element is read outside a vector), and on a grid that satisfies the data-model
  invariant the value is 1 whenever \<open>x < 0\<close>, \<open>y < 0\<close>, \<open>x \<ge> width\<close> or
  \<open>y \<ge> height\<close>, and the stored collision value otherwise.
\<close>

theorem getCollision_never_fails:
  "(\<exists>c. getCollision m x y = Some c) \<and>
   (grid_ok m \<longrightarrow>
      getCollision m x y =
        Some (if x < 0 \<or> y < 0 \<or> x \<ge> int (width m) \<or> y \<ge> int (height m) then 1
              else collision m ! nat x ! nat y))"
proof -
  have total: "\<exists>c. getCollision m x y = Some c"
    by (auto simp: getCollision_def vec_at_def)
  have "getCollision m x y =
        Some (if x < 0 \<or> y < 0 \<or> x \<ge> int (width m) \<or> y \<ge> int (height m) then 1
              else collision m ! nat x ! nat y)" if ok: "grid_ok m"
  proof (cases "x < 0 \<or> y < 0 \<or> x \<ge> int (width m)")
    case True
    then show ?thesis using ok by (auto simp: getCollision_def grid_ok_def width_def)
  next
    case False
    then have "nat x < width m" by auto
    then have len: "length (collision m ! nat x) = height m"
      using ok grid_ok_column by blast
    have w: "length (collision m) = width m"
      using ok by (simp add: grid_ok_def width_def)
    from False show ?thesis
      by (auto simp: getCollision_def vec_at_def len w)
  qed
  with total show ?thesis by blast
qed


theorem getCollision_never_fails_witness:
  "grid_ok authored_map \<and>
   getCollision authored_map 0 0 = Some 0 \<and>
   getCollision authored_map 0 1 = Some 2 \<and>
   getCollision authored_map 2 0 = Some 1 \<and>
   getCollision authored_map 0 (- 1) = Some 1 \<and>
   getCollision authored_map 1 2 = Some 1"
proof -
  have ok: "grid_ok authored_map"
    by (simp add: authored_map_def grid_ok_def height_def)
  show ?thesis
    using ok getCollision_never_fails [of authored_map 0 0]
      getCollision_never_fails [of authored_map 0 1]
      getCollision_never_fails [of authored_map 2 0]
      getCollision_never_fails [of authored_map 0 "- 1"]
      getCollision_never_fails [of authored_map 1 2]
    by (simp add: authored_map_def height_def width_def)
qed

text \<open>
  C6, as the spec states it, fails: an absolute resize to the extent the grid already has
  changes nothing, so the authored cell (0, 0) still holds its texture and collision 0.
\<close>

theorem resize_absolute_keeps_cells_counterexample:
  "resizeMapStorage authored_map 1 1 True = Inr authored_map \<and>
   collision authored_map ! 0 ! 0 \<noteq> 1 \<and>
   tile authored_map ! 0 ! 0 \<noteq> MissingTexture"
  by (simp add: resizeMapStorage_absolute_eq vector_resize_def authored_map_def)

text \<open>
  C6, amended: for every prior grid state and \<open>x, y \<ge> -1\<close>, \<open>resize(x, y)\<close> with
  \<open>absolute\<close> true sets the extent to exactly \<open>(x+1, y+1)\<close>; a cell that lies inside
  both the old and the new storage keeps its prior content, every other cell holds the
  missing-tile texture and collision 1. With \<open>x = -1\<close>, the call that \<open>loadMap\<close> makes,
  the storage is empty afterwards, so all prior content is discarded.
\<close>

theorem resize_absolute:
  assumes "- 1 \<le> x" and "- 1 \<le> y"
  shows "\<exists>m'. resizeMapStorage m x y True = Inr m' \<and>
           length (tile m') = nat (x + 1) \<and> length (collision m') = nat (x + 1) \<and>
           (\<forall>i < nat (x + 1).
              length (tile m' ! i) = nat (y + 1) \<and> length (collision m' ! i) = nat (y + 1) \<and>
              (\<forall>j < nat (y + 1).
                 tile m' ! i ! j =
                   (if i < length (tile m) \<and> j < length (tile m ! i) then tile m ! i ! j
                    else MissingTexture) \<and>
                 collision m' ! i ! j =
                   (if i < length (collision m) \<and> j < length (collision m ! i)
                    then collision m ! i ! j else 1))) \<and>
           (x = - 1 \<longrightarrow> tile m' = [] \<and> collision m' = [])"
proof -
  let ?m = "m\<lparr>tile := map (vector_resize (nat (y + 1)) MissingTexture)
                       (vector_resize (nat (x + 1)) [] (tile m)),
            collision := map (vector_resize (nat (y + 1)) 1)
                       (vector_resize (nat (x + 1)) [] (collision m))\<rparr>"
  have eq: "resizeMapStorage m x y True = Inr ?m"
    using assms by (rule resizeMapStorage_absolute_eq)
  have cells: "\<forall>i < nat (x + 1).
              length (tile ?m ! i) = nat (y + 1) \<and> length (collision ?m ! i) = nat (y + 1) \<and>
              (\<forall>j < nat (y + 1).
                 tile ?m ! i ! j =
                   (if i < length (tile m) \<and> j < length (tile m ! i) then tile m ! i ! j
                    else MissingTexture) \<and>
                 collision ?m ! i ! j =
                   (if i < length (collision m) \<and> j < length (collision m ! i)
                    then collision m ! i ! j else 1))"
    by (simp add: nth_vector_resize)
  have empty: "x = - 1 \<longrightarrow> tile ?m = [] \<and> collision ?m = []"
    by (simp add: vector_resize_def)
  have lens: "length (tile ?m) = nat (x + 1) \<and> length (collision ?m) = nat (x + 1)"
    by simp
  from eq cells empty lens show ?thesis by blast
qed

theorem resize_absolute_witness:
  "- 1 \<le> (2::int) \<and> - 1 \<le> (0::int) \<and>
   resizeMapStorage authored_map 2 0 True =
     Inr (authored_map\<lparr>tile := [[Texture ''a.png''], [Texture ''c.png''], [MissingTexture]],
                       collision := [[0], [1], [1]]\<rparr>) \<and>
   resizeMapStorage authored_map (- 1) (- 1) True =
     Inr (authored_map\<lparr>tile := [], collision := []\<rparr>)"
  using resize_absolute [of 2 0 authored_map] resize_absolute [of "- 1" "- 1" authored_map]
  by (simp add: resizeMapStorage_absolute_eq vector_resize_def authored_map_def)








section \<open>The player's input\<close>

lemma getCollision_Some: "\<exists>c. getCollision m x y = Some c"
  by (auto simp: getCollision_def vec_at_def)

lemma checkCollision_inner:
  "\<exists>c'. fold (\<lambda>y coll. case coll of None \<Rightarrow> None
                | Some c \<Rightarrow> map_option (max c) (getCollision m a (b + y))) ys (Some c) = Some c'"
proof (induction ys arbitrary: c)
  case Nil
  show ?case by simp
next
  case (Cons y ys)
  obtain v where "getCollision m a (b + y) = Some v"
    using getCollision_Some by blast
  then show ?case using Cons.IH [of "max c v"] by simp
qed

lemma checkCollision_outer:
  "\<exists>c'. fold (\<lambda>x. fold (\<lambda>y coll. case coll of None \<Rightarrow> None
                | Some c \<Rightarrow> map_option (max c) (getCollision m (a + x) (b + y))) ys)
           xs (Some c) = Some c'"
proof (induction xs arbitrary: c)
  case Nil
  show ?case by simp
next
  case (Cons x xs)
  obtain v where "fold (\<lambda>y coll. case coll of None \<Rightarrow> None
                | Some c \<Rightarrow> map_option (max c) (getCollision m (a + x) (b + y))) ys (Some c)
              = Some v"
    using checkCollision_inner by blast
  then show ?case using Cons.IH [of v] by simp
qed

lemma checkCollision_Some: "\<exists>c. checkCollision m g ox oy = Some c"
  unfolding checkCollision_def Let_def by (rule checkCollision_outer)

lemma player_if:
  "(if A then do { c \<leftarrow> checkCollision m g ox oy; Some (if c < 1 then M else g) } else Some g)
     = Some (if A \<and> (case checkCollision m g ox oy of Some c \<Rightarrow> c < 1 | None \<Rightarrow> False)
             then M else g)"
  using checkCollision_Some [of m g ox oy] by auto

lemma player_if_UP:
  "(if (isPlayer inp UP \<and> ptype = 0) \<or> (isPlayer2 inp UP \<and> ptype = 1)
    then do { c \<leftarrow> checkCollision m g 0 (- 1);
              Some (if c < 1 then setMapPos cfg (map_x g) (map_y g - 1) True g else g) }
    else Some g) = Some (spec_move cfg inp m ptype UP g)"
  unfolding player_if by (auto simp: spec_move_def input_active_def)

lemma player_if_RIGHT:
  "(if (isPlayer inp RIGHT \<and> ptype = 0) \<or> (isPlayer2 inp RIGHT \<and> ptype = 1)
    then do { c \<leftarrow> checkCollision m g 1 0;
              Some (if c < 1 then setMapPos cfg (map_x g + 1) (map_y g) True g else g) }
    else Some g) = Some (spec_move cfg inp m ptype RIGHT g)"
  unfolding player_if by (auto simp: spec_move_def input_active_def)

lemma player_if_DOWN:
  "(if (isPlayer inp DOWN \<and> ptype = 0) \<or> (isPlayer2 inp DOWN \<and> ptype = 1)
    then do { c \<leftarrow> checkCollision m g 0 1;
              Some (if c < 1 then setMapPos cfg (map_x g) (map_y g + 1) True g else g) }
    else Some g) = Some (spec_move cfg inp m ptype DOWN g)"
  unfolding player_if by (auto simp: spec_move_def input_active_def)

lemma player_if_LEFT:
  "(if (isPlayer inp LEFT \<and> ptype = 0) \<or> (isPlayer2 inp LEFT \<and> ptype = 1)
    then do { c \<leftarrow> checkCollision m g (- 1) 0;
              Some (if c < 1 then setMapPos cfg (map_x g - 1) (map_y g) True g else g) }
    else Some g) = Some (spec_move cfg inp m ptype LEFT g)"
  unfolding player_if by (auto simp: spec_move_def input_active_def)

lemma Player_runTick_spec:
  "Player_runTick cfg inp m ptype delta g = Some (spec_player_tick cfg inp m ptype delta g)"
  unfolding Player_runTick_def spec_player_tick_def Let_def
  by (simp only: player_if_UP player_if_RIGHT player_if_DOWN player_if_LEFT
      Option.bind.simps fold_simps id_apply o_apply if_distrib [of Some, symmetric])


lemma frame_fields [simp]:
  "map_x (stopFrame d g) = map_x g" "map_y (stopFrame d g) = map_y g"
  "map_x (advanceFrame d g) = map_x g" "map_y (advanceFrame d g) = map_y g"
  by (simp_all add: stopFrame_def advanceFrame_def Let_def)

lemma GameObject_runTick_map:
  "map_x (GameObject_runTick cfg delta g) = map_x g \<and>
   map_y (GameObject_runTick cfg delta g) = map_y g"
  by (simp add: GameObject_runTick_def runTick_unfold split: option.split)

lemma spec_move_pos:
  "map_x (spec_move cfg inp m ptype d h) =
     (if input_active inp ptype d \<and>
         (case checkCollision m h (fst (dir_offset d)) (snd (dir_offset d)) of
            Some c \<Rightarrow> c < 1 | None \<Rightarrow> False)
      then map_x h + fst (dir_offset d) else map_x h) \<and>
   map_y (spec_move cfg inp m ptype d h) =
     (if input_active inp ptype d \<and>
         (case checkCollision m h (fst (dir_offset d)) (snd (dir_offset d)) of
            Some c \<Rightarrow> c < 1 | None \<Rightarrow> False)
      then map_y h + snd (dir_offset d) else map_y h)"
  by (simp add: spec_move_def setMapPos_def Let_def split: option.split)

text \<open>
  C9, as the spec states it, fails at three ticks of the example player on tile (1, 1),
  with up and right held. With tile (2, 0) blocking, both directions are clear from the
  tile the tick starts on, and the tick ends on (1, 0): right is tested from (1, 0).
  With tile (2, 1) blocking, right is blocked from the starting tile, and the tick ends on
  (2, 0). And a player that enters the tick at frame 2, one pixel from its target, is at
  frame 5 after the base tick and moves to (2, 0).
\<close>

theorem Player_runTick_counterexample:
  "map_x example_player = 1 \<and> map_y example_player = 1 \<and>
   checkCollision corner_blocked_map example_player 0 (- 1) = Some 0 \<and>
   checkCollision corner_blocked_map example_player 1 0 = Some 0 \<and>
   map_option map_x
     (Player_runTick example_cfg up_right_input corner_blocked_map 0 2 example_player) = Some 1 \<and>
   map_option map_y
     (Player_runTick example_cfg up_right_input corner_blocked_map 0 2 example_player) = Some 0 \<and>
   checkCollision side_blocked_map example_player 1 0 = Some 1 \<and>
   map_option map_x
     (Player_runTick example_cfg up_right_input side_blocked_map 0 2 example_player) = Some 2 \<and>
   map_option map_y
     (Player_runTick example_cfg up_right_input side_blocked_map 0 2 example_player) = Some 0 \<and>
   current_frame (walking_player 17 16) = 2 \<and> stop_frame (walking_player 17 16) = 5 \<and>
   map_x (walking_player 17 16) = 1 \<and> map_y (walking_player 17 16) = 1 \<and>
   map_option map_x
     (Player_runTick example_cfg up_right_input example_map 0 2 (walking_player 17 16)) = Some 2 \<and>
   map_option map_y
     (Player_runTick example_cfg up_right_input example_map 0 2 (walking_player 17 16)) = Some 0"
  by code_simp

text \<open>
  C9, amended: on every player tick the base tick runs first. If the frame is then 0 or
  the stop frame, the four directions are evaluated in the fixed order up, right, down,
  left, each on the logical position that the directions before it left in this tick: a
  direction whose input is active for this player and whose \<open>checkCollision\<close> result
  for its one-tile offset from that position is below 1 issues a one-tile logical move,
  and several directions can move in the same tick. The move is animated: the logical
  position changes at once, the walker is sent to the new tile and the visual position
  stays. If the frame after the base tick is neither 0 nor the stop frame, the tick is
  the base tick alone: no move is issued and the logical position is unchanged.
\<close>

theorem Player_runTick_input_moves:
  "Player_runTick cfg inp m ptype delta g = Some (spec_player_tick cfg inp m ptype delta g) \<and>
   (current_frame (GameObject_runTick cfg delta g) = 0 \<or>
    current_frame (GameObject_runTick cfg delta g) = stop_frame (GameObject_runTick cfg delta g)
    \<longrightarrow> Player_runTick cfg inp m ptype delta g =
          Some (spec_move cfg inp m ptype LEFT
                 (spec_move cfg inp m ptype DOWN
                   (spec_move cfg inp m ptype RIGHT
                     (spec_move cfg inp m ptype UP (GameObject_runTick cfg delta g)))))) \<and>
   map_x (spec_move cfg inp m ptype d h) =
     (if input_active inp ptype d \<and>
         (case checkCollision m h (fst (dir_offset d)) (snd (dir_offset d)) of
            Some c \<Rightarrow> c < 1 | None \<Rightarrow> False)
      then map_x h + fst (dir_offset d) else map_x h) \<and>
   map_y (spec_move cfg inp m ptype d h) =
     (if input_active inp ptype d \<and>
         (case checkCollision m h (fst (dir_offset d)) (snd (dir_offset d)) of
            Some c \<Rightarrow> c < 1 | None \<Rightarrow> False)
      then map_y h + snd (dir_offset d) else map_y h) \<and>
   (current_frame (GameObject_runTick cfg delta g) \<noteq> 0 \<and>
    current_frame (GameObject_runTick cfg delta g) \<noteq> stop_frame (GameObject_runTick cfg delta g)
    \<longrightarrow> Player_runTick cfg inp m ptype delta g = Some (GameObject_runTick cfg delta g) \<and>
        map_x (GameObject_runTick cfg delta g) = map_x g \<and>
        map_y (GameObject_runTick cfg delta g) = map_y g) \<and>
   (object_walker h = Some w \<longrightarrow>
      setMapPos cfg x y True h =
        h\<lparr>map_x := x, map_y := y,
          object_walker := Some (setDestination (x * TILE_SIZE cfg) (y * TILE_SIZE cfg) w)\<rparr>)"
proof -
  have spec: "Player_runTick cfg inp m ptype delta g
                = Some (spec_player_tick cfg inp m ptype delta g)"
    by (rule Player_runTick_spec)
  have idle: "current_frame (GameObject_runTick cfg delta g) = 0 \<or>
      current_frame (GameObject_runTick cfg delta g) = stop_frame (GameObject_runTick cfg delta g)
      \<longrightarrow> Player_runTick cfg inp m ptype delta g =
          Some (spec_move cfg inp m ptype LEFT
                 (spec_move cfg inp m ptype DOWN
                   (spec_move cfg inp m ptype RIGHT
                     (spec_move cfg inp m ptype UP (GameObject_runTick cfg delta g)))))"
    unfolding spec by (simp add: spec_player_tick_def Let_def)
  have busy: "current_frame (GameObject_runTick cfg delta g) \<noteq> 0 \<and>
      current_frame (GameObject_runTick cfg delta g) \<noteq> stop_frame (GameObject_runTick cfg delta g)
      \<longrightarrow> Player_runTick cfg inp m ptype delta g = Some (GameObject_runTick cfg delta g) \<and>
        map_x (GameObject_runTick cfg delta g) = map_x g \<and>
        map_y (GameObject_runTick cfg delta g) = map_y g"
    unfolding spec using GameObject_runTick_map [of cfg delta g]
    by (simp add: spec_player_tick_def Let_def)
  have move: "object_walker h = Some w \<longrightarrow>
      setMapPos cfg x y True h =
        h\<lparr>map_x := x, map_y := y,
          object_walker := Some (setDestination (x * TILE_SIZE cfg) (y * TILE_SIZE cfg) w)\<rparr>"
    by (simp add: setMapPos_def Let_def)
  from spec idle busy move spec_move_pos [of cfg inp m ptype d h] show ?thesis
    by (intro conjI) simp_all
qed

theorem Player_runTick_input_moves_witness:
  "Player_runTick example_cfg up_right_input example_map 0 2 example_player
     = Some (spec_player_tick example_cfg up_right_input example_map 0 2 example_player) \<and>
   map_x example_player = 1 \<and> map_y example_player = 1 \<and>
   map_x (spec_player_tick example_cfg up_right_input example_map 0 2 example_player) = 2 \<and>
   map_y (spec_player_tick example_cfg up_right_input example_map 0 2 example_player) = 0 \<and>
   screen_x (spec_player_tick example_cfg up_right_input example_map 0 2 example_player) = 16 \<and>
   screen_y (spec_player_tick example_cfg up_right_input example_map 0 2 example_player) = 16 \<and>
   current_frame (GameObject_runTick example_cfg 2 (walking_player 10 16)) = 3 \<and>
   stop_frame (GameObject_runTick example_cfg 2 (walking_player 10 16)) = 5 \<and>
   Player_runTick example_cfg up_right_input example_map 0 2 (walking_player 10 16)
     = Some (GameObject_runTick example_cfg 2 (walking_player 10 16))"
proof -
  have pos: "map_x example_player = 1" "map_y example_player = 1"
    "map_x (spec_player_tick example_cfg up_right_input example_map 0 2 example_player) = 2"
    "map_y (spec_player_tick example_cfg up_right_input example_map 0 2 example_player) = 0"
    "screen_x (spec_player_tick example_cfg up_right_input example_map 0 2 example_player) = 16"
    "screen_y (spec_player_tick example_cfg up_right_input example_map 0 2 example_player) = 16"
    by code_simp+
  have frames: "current_frame (GameObject_runTick example_cfg 2 (walking_player 10 16)) = 3"
    "stop_frame (GameObject_runTick example_cfg 2 (walking_player 10 16)) = 5"
    by code_simp+
  have first: "Player_runTick example_cfg up_right_input example_map 0 2 example_player
      = Some (spec_player_tick example_cfg up_right_input example_map 0 2 example_player)"
    using Player_runTick_input_moves
      [of example_cfg up_right_input example_map 0 2 example_player]
    by (rule conjunct1)
  have "current_frame (GameObject_runTick example_cfg 2 (walking_player 10 16)) \<noteq> 0 \<and>
      current_frame (GameObject_runTick example_cfg 2 (walking_player 10 16))
        \<noteq> stop_frame (GameObject_runTick example_cfg 2 (walking_player 10 16))"
    by (simp add: frames)
  then have second:
    "Player_runTick example_cfg up_right_input example_map 0 2 (walking_player 10 16)
       = Some (GameObject_runTick example_cfg 2 (walking_player 10 16))"
    using Player_runTick_input_moves
      [of example_cfg up_right_input example_map 0 2 "walking_player 10 16"]
    by blast
  from first second pos frames show ?thesis by simp
qed

section \<open>The viewport zoom\<close>








text \<open>
  C2 describes what the comment in the source asks for ("calculate map size to include
  everything"), and the loop does not do it: its condition joins the two axes with
  \<open>and\<close>. Here the camera objects end the tick 999 pixels apart on the x axis and level
  on the y axis; the viewport of multiplier 5 is 320 pixels wide, and the multiplier is
  still 5.
\<close>

theorem zoom_single_axis_not_incremented:
  "map_option (map (getCenter example_cfg) \<circ> objects \<circ> fst)
     (GameManager_runTick example_cfg no_input 11 (two_players 1000 0))
     = Some [(24, 24), (1023, 24)] \<and>
   map_option (view_multiplier \<circ> snd)
     (GameManager_runTick example_cfg no_input 11 (two_players 1000 0)) = Some 5 \<and>
   map_option (view_size \<circ> snd)
     (GameManager_runTick example_cfg no_input 11 (two_players 1000 0)) = Some (320, 240)"
  by code_simp

end
